theory Spec2Isabelle
  imports Complex_Main
begin

section \<open>Risk simulation and impact analysis (modules/simulation/risk\_simulator.py)\<close>

text \<open>
  A shallow embedding of the analytical functions of \<^verbatim>\<open>risk_simulator.py\<close>:
  \<^verbatim>\<open>run_monte_carlo_simulation\<close>, \<^verbatim>\<open>analyze_risk_impacts\<close>,
  \<^verbatim>\<open>generate_impact_level\<close>, \<^verbatim>\<open>calculate_risk_score\<close>,
  \<^verbatim>\<open>convert_level_to_score\<close> and the computing part of
  \<^verbatim>\<open>show_mitigation_strategies\<close> and \<^verbatim>\<open>show_monte_carlo_simulation\<close>.

  Conventions of the embedding.
  \<^item> Python numbers are idealised: \<^verbatim>\<open>int\<close> is \<^typ>\<open>int\<close>, \<^verbatim>\<open>float\<close> is
    \<^typ>\<open>real\<close> (no rounding, no overflow, no nan).
  \<^item> A \<^verbatim>\<open>datetime\<close> is a whole number of microseconds, within the range of the
    type (years 1 to 9999); adding a \<^verbatim>\<open>timedelta\<close> rounds to the microsecond and
    raises OverflowError outside the range.
  \<^item> The process-wide generator behind \<^verbatim>\<open>random.random()\<close> is a sequence
    \<open>rnd :: nat \<Rightarrow> real\<close> of the values it is going to return, and a position
    \<open>k\<close> that every draw advances by one; functions that draw return the new position.
  \<^item> An exception is the left summand of a sum type.
  \<^item> A dictionary read with \<^verbatim>\<open>.get(key, default)\<close> is a map
    \<^typ>\<open>string \<rightharpoonup> string\<close>.
\<close>

subsection \<open>Python values\<close>

datatype error = ZeroDivisionError | ValueError | KeyError | IndexError | OverflowError

type_synonym rng = "nat \<Rightarrow> real"


text \<open>\<^verbatim>\<open>str.lower()\<close>, on the letters A to Z; every other character is kept.\<close>

definition lower_char :: "char \<Rightarrow> char" where
  "lower_char c =
     (case map_of (zip ''ABCDEFGHIJKLMNOPQRSTUVWXYZ'' ''abcdefghijklmnopqrstuvwxyz'') c of
        None \<Rightarrow> c
      | Some l \<Rightarrow> l)"

definition lower :: "string \<Rightarrow> string" where
  "lower s = map lower_char s"

text \<open>\<^verbatim>\<open>d.get(key, default)\<close> on a dictionary of strings.\<close>

definition get :: "(string \<rightharpoonup> string) \<Rightarrow> string \<Rightarrow> string \<Rightarrow> string" where
  "get d key dflt = (case d key of None \<Rightarrow> dflt | Some v \<Rightarrow> v)"

text \<open>\<^verbatim>\<open>math.sqrt\<close> raises ValueError below zero.\<close>

definition py_sqrt :: "real \<Rightarrow> error + real" where
  "py_sqrt x = (if x < 0 then Inl ValueError else Inr (sqrt x))"

text \<open>
  \<^verbatim>\<open>random.triangular(low, high, mode)\<close> of the standard library: one draw, then
  \<^verbatim>\<open>c = (mode - low) / (high - low)\<close>, whose ZeroDivisionError is caught and answered
  with \<^verbatim>\<open>low\<close>; otherwise the draw is folded at \<open>c\<close> and the result is
  \<^verbatim>\<open>low + (high - low) * sqrt(u * c)\<close>.
\<close>

definition triangular :: "rng \<Rightarrow> nat \<Rightarrow> real \<Rightarrow> real \<Rightarrow> real \<Rightarrow> error + (real \<times> nat)" where
  "triangular rnd k low high mode =
     (let u = rnd k; k' = Suc k in
      if high - low = 0 then Inr (low, k')
      else
        let c = (mode - low) / (high - low);
            fold = u > c;
            u' = (if fold then 1 - u else u);
            c' = (if fold then 1 - c else c);
            low' = (if fold then high else low);
            high' = (if fold then low else high)
        in case py_sqrt (u' * c') of
             Inl e \<Rightarrow> Inl e
           | Inr r \<Rightarrow> Inr (low' + (high' - low') * r, k'))"

subsection \<open>Dates\<close>

text \<open>
  A \<^verbatim>\<open>datetime\<close> (naive, as \<^verbatim>\<open>datetime.datetime.now()\<close> returns it) is the number of
  microseconds since 0001-01-01 00:00:00; the type ends with 9999-12-31 23:59:59.999999,
  the last microsecond of the day with ordinal 3652059.
\<close>

typedef datetime = "{t :: int. 0 \<le> t \<and> t < 315537897600000000}"
  morphisms microseconds datetime_of_microseconds
  by (rule exI [of _ 0]) simp

text \<open>Python's \<^verbatim>\<open>round\<close>: to the nearest integer, a tie to the even one.\<close>

definition round_half_even :: "real \<Rightarrow> int" where
  "round_half_even x =
     (let f = \<lfloor>x\<rfloor>; r = x - of_int f in
      if r < 1 / 2 then f
      else if 1 / 2 < r then f + 1
      else if even f then f
      else f + 1)"

text \<open>
  \<^verbatim>\<open>timedelta(days=d)\<close>, as its number of microseconds: the days are rounded to the
  microsecond, and more than 999999999 days in either direction raise OverflowError.
\<close>

definition timedelta_days :: "real \<Rightarrow> error + int" where
  "timedelta_days days =
     (let us = round_half_even (days * 86400000000) in
      if 999999999 < \<bar>us div 86400000000\<bar> then Inl OverflowError else Inr us)"

text \<open>\<^verbatim>\<open>datetime + timedelta\<close>: OverflowError when the result leaves the range of the type.\<close>

definition datetime_add :: "datetime \<Rightarrow> int \<Rightarrow> error + datetime" where
  "datetime_add t delta =
     (let r = microseconds t + delta in
      if 0 \<le> r \<and> r < 315537897600000000 then Inr (datetime_of_microseconds r)
      else Inl OverflowError)"

text \<open>\<^verbatim>\<open>t + timedelta(days=d)\<close>.\<close>

definition plus_days :: "datetime \<Rightarrow> real \<Rightarrow> error + datetime" where
  "plus_days t d =
     (case timedelta_days d of
        Inl e \<Rightarrow> Inl e
      | Inr delta \<Rightarrow> datetime_add t delta)"

text \<open>
  The proleptic Gregorian ordinal of a date (\<^verbatim>\<open>date(y, m, d).toordinal()\<close>, day 1 is
  0001-01-01), and \<^verbatim>\<open>datetime(y, m, d)\<close>, the start of that day.
\<close>

definition is_leap :: "int \<Rightarrow> bool" where
  "is_leap year \<longleftrightarrow> year mod 4 = 0 \<and> (year mod 100 \<noteq> 0 \<or> year mod 400 = 0)"

definition days_before_year :: "int \<Rightarrow> int" where
  "days_before_year year = (let y = year - 1 in y * 365 + y div 4 - y div 100 + y div 400)"

definition days_before_month :: "int \<Rightarrow> int \<Rightarrow> int" where
  "days_before_month year month =
     sum_list (take (nat (month - 1)) [31, 28, 31, 30, 31, 30, 31, 31, 30, 31, 30, 31])
       + (if 2 < month \<and> is_leap year then 1 else 0)"

definition ymd2ord :: "int \<Rightarrow> int \<Rightarrow> int \<Rightarrow> int" where
  "ymd2ord year month day = days_before_year year + days_before_month year month + day"

definition midnight :: "int \<Rightarrow> int \<Rightarrow> int \<Rightarrow> datetime" where
  "midnight year month day =
     datetime_of_microseconds ((ymd2ord year month day - 1) * 86400000000)"

subsection \<open>Level scores\<close>

definition convert_level_to_score :: "string \<Rightarrow> int" where
  "convert_level_to_score level =
     (let level_lower = lower level in
      if level_lower \<in> set [''high'', ''h''] then 3
      else if level_lower \<in> set [''medium'', ''med'', ''m''] then 2
      else if level_lower \<in> set [''low'', ''l''] then 1
      else 2)"

text \<open>
  The level mapping in the words of the specification, for comparison: Low is 1, Medium is 2,
  High is 3, case-insensitively, and every other string is 2.
\<close>

definition spec_level_score :: "string \<Rightarrow> int" where
  "spec_level_score level =
     (if lower level = ''low'' then 1
      else if lower level = ''medium'' then 2
      else if lower level = ''high'' then 3
      else 2)"

type_synonym risk = "string \<rightharpoonup> string"

definition calculate_risk_score :: "risk \<Rightarrow> int" where
  "calculate_risk_score risk =
     (let probability = convert_level_to_score (get risk ''probability'' ''Medium'');
          impact = convert_level_to_score (get risk ''impact'' ''Medium'')
      in probability * impact)"

text \<open>
  The initial score in the words of the specification, for comparison: the score of the
  risk's severity times the score of its probability.
\<close>

definition spec_initial_score :: "risk \<Rightarrow> int" where
  "spec_initial_score risk =
     convert_level_to_score (get risk ''severity'' ''Medium'')
       * convert_level_to_score (get risk ''probability'' ''Medium'')"

subsection \<open>Monte Carlo schedule simulation\<close>

text \<open>A task dictionary; the simulation reads \<^verbatim>\<open>task.get('duration', 0)\<close> only.\<close>

record task =
  task_id :: string
  duration :: "real option"
  critical :: "bool option"

definition task_duration :: "task \<Rightarrow> real" where
  "task_duration t = (case duration t of None \<Rightarrow> 0 | Some d \<Rightarrow> d)"

text \<open>The result dictionary, keys \<^verbatim>\<open>durations\<close> and \<^verbatim>\<open>completion_dates\<close>.\<close>

record simulation_results =
  durations :: "real list"
  completion_dates :: "datetime list"

text \<open>The body of the inner loop: the sampled duration of one task.\<close>

definition sample_duration :: "rng \<Rightarrow> nat \<Rightarrow> real \<Rightarrow> real \<Rightarrow> error + (real \<times> nat)" where
  "sample_duration rnd k uncertainty base_duration =
     (let min_duration = base_duration * (1 - uncertainty);
          max_duration = base_duration * (1 + uncertainty)
      in triangular rnd k min_duration max_duration base_duration)"

text \<open>The inner loop, over \<^verbatim>\<open>baseline_durations.items()\<close> in insertion order.\<close>

fun simulate_durations :: "rng \<Rightarrow> nat \<Rightarrow> real \<Rightarrow> real list \<Rightarrow> error + (real list \<times> nat)" where
  "simulate_durations rnd k uncertainty [] = Inr ([], k)"
| "simulate_durations rnd k uncertainty (base_duration # rest) =
     (case sample_duration rnd k uncertainty base_duration of
        Inl e \<Rightarrow> Inl e
      | Inr (d, k') \<Rightarrow>
          (case simulate_durations rnd k' uncertainty rest of
             Inl e \<Rightarrow> Inl e
           | Inr (ds, k'') \<Rightarrow> Inr (d # ds, k'')))"

text \<open>The outer loop, \<^verbatim>\<open>for _ in range(num_iterations)\<close>, appending to both lists.\<close>

fun simulation_loop ::
  "rng \<Rightarrow> nat \<Rightarrow> datetime \<Rightarrow> real list \<Rightarrow> real \<Rightarrow> nat \<Rightarrow> simulation_results
     \<Rightarrow> error + (simulation_results \<times> nat)" where
  "simulation_loop rnd k baseline_start baseline_durations uncertainty 0 acc = Inr (acc, k)"
| "simulation_loop rnd k baseline_start baseline_durations uncertainty (Suc n) acc =
     (case simulate_durations rnd k uncertainty baseline_durations of
        Inl e \<Rightarrow> Inl e
      | Inr (simulated_durations, k') \<Rightarrow>
          (let total_duration = sum_list simulated_durations
           in case plus_days baseline_start total_duration of
                Inl e \<Rightarrow> Inl e
              | Inr completion_date \<Rightarrow>
                  simulation_loop rnd k' baseline_start baseline_durations uncertainty n
                    \<lparr>durations = durations acc @ [total_duration],
                     completion_dates = completion_dates acc @ [completion_date]\<rparr>))"

text \<open>
  \<open>now\<close> is what \<^verbatim>\<open>datetime.datetime.now()\<close> returns at the call;
  \<^verbatim>\<open>range(n)\<close> is empty for every \<open>n\<close> below 1.
\<close>

definition run_monte_carlo_simulation ::
  "rng \<Rightarrow> nat \<Rightarrow> datetime \<Rightarrow> task list \<Rightarrow> real \<Rightarrow> int \<Rightarrow> error + (simulation_results \<times> nat)" where
  "run_monte_carlo_simulation rnd k now tasks uncertainty num_iterations =
     (let baseline_start = now;
          baseline_durations = map task_duration tasks
      in simulation_loop rnd k baseline_start baseline_durations uncertainty
           (nat num_iterations) \<lparr>durations = [], completion_dates = []\<rparr>)"

text \<open>
  \<^verbatim>\<open>np.percentile(a, q)\<close> with NumPy's default method (linear interpolation): \<open>q\<close>
  must lie between 0 and 100; the array is sorted, the virtual index is
  \<open>q / 100 * (n - 1)\<close>, and the result interpolates between the elements at its floor and
  at the next index (clipped to the last one). An empty array has no percentile.
\<close>

definition percentile :: "real list \<Rightarrow> real \<Rightarrow> error + real" where
  "percentile a q =
     (if q < 0 \<or> 100 < q then Inl ValueError
      else if a = [] then Inl IndexError
      else
        let arr = sort a;
            n = length arr;
            virtual_index = q / 100 * real (n - 1);
            previous_index = nat \<lfloor>virtual_index\<rfloor>;
            next_index = min (previous_index + 1) (n - 1);
            gamma = virtual_index - real previous_index;
            previous = arr ! previous_index;
            next = arr ! next_index
        in Inr (previous + (next - previous) * gamma))"

text \<open>The table \<^verbatim>\<open>confidence_percentiles\<close> of \<^verbatim>\<open>show_monte_carlo_simulation\<close>.\<close>

definition confidence_percentiles :: "(string \<times> real) list" where
  "confidence_percentiles = [(''50%'', 50), (''80%'', 80), (''90%'', 90), (''95%'', 95)]"

subsection \<open>Risk impact analysis\<close>

definition category_impact :: "string \<rightharpoonup> (string \<rightharpoonup> real)" where
  "category_impact = map_of
     [(''technical'', map_of [(''Schedule'', 0.7), (''Budget'', 0.5), (''Scope'', 0.3),
                              (''Quality'', 0.8), (''Resources'', 0.4)]),
      (''schedule'', map_of [(''Schedule'', 0.9), (''Budget'', 0.6), (''Scope'', 0.3),
                             (''Quality'', 0.4), (''Resources'', 0.5)]),
      (''cost'', map_of [(''Schedule'', 0.4), (''Budget'', 0.9), (''Scope'', 0.5),
                         (''Quality'', 0.3), (''Resources'', 0.6)]),
      (''resource'', map_of [(''Schedule'', 0.7), (''Budget'', 0.5), (''Scope'', 0.3),
                             (''Quality'', 0.6), (''Resources'', 0.9)]),
      (''scope'', map_of [(''Schedule'', 0.6), (''Budget'', 0.7), (''Scope'', 0.9),
                          (''Quality'', 0.5), (''Resources'', 0.4)]),
      (''quality'', map_of [(''Schedule'', 0.5), (''Budget'', 0.4), (''Scope'', 0.3),
                            (''Quality'', 0.9), (''Resources'', 0.4)]),
      (''external'', map_of [(''Schedule'', 0.7), (''Budget'', 0.6), (''Scope'', 0.5),
                             (''Quality'', 0.4), (''Resources'', 0.6)])]"

definition default_impact :: "string \<rightharpoonup> real" where
  "default_impact = map_of [(''Schedule'', 0.6), (''Budget'', 0.6), (''Scope'', 0.5),
                            (''Quality'', 0.5), (''Resources'', 0.5)]"

definition generate_impact_level :: "rng \<Rightarrow> nat \<Rightarrow> string \<Rightarrow> string \<Rightarrow> int \<Rightarrow> string \<times> nat" where
  "generate_impact_level rnd k risk_category objective base_score =
     (let category_impacts =
            (case category_impact risk_category of None \<Rightarrow> default_impact | Some m \<Rightarrow> m);
          impact_prob = (case category_impacts objective of None \<Rightarrow> 0.5 | Some p \<Rightarrow> p);
          adjusted_prob = impact_prob * (real_of_int base_score / 4.5) * (0.8 + 0.4 * rnd k)
      in (if adjusted_prob > 0.66 then ''High''
          else if adjusted_prob > 0.33 then ''Medium''
          else ''Low'',
          Suc k))"

text \<open>A row of the impact matrix: a dictionary from \<^verbatim>\<open>'Risk'\<close> and from every objective.\<close>

type_synonym impact_row = "string \<rightharpoonup> string"

text \<open>An element of \<^verbatim>\<open>risk_scores\<close>, keys \<^verbatim>\<open>risk\<close>, \<^verbatim>\<open>objectives\<close>, \<^verbatim>\<open>scores\<close>.\<close>

record radar_entry =
  entry_risk :: string
  entry_objectives :: "string list"
  entry_scores :: "real list"

text \<open>The dictionary \<^verbatim>\<open>combined_impact\<close>, keys \<^verbatim>\<open>objectives\<close> and \<^verbatim>\<open>impact_scores\<close>.\<close>

record combined =
  ci_objectives :: "string list"
  ci_impact_scores :: "real list"

text \<open>
  The result dictionary, keys \<^verbatim>\<open>impact_matrix\<close>, \<^verbatim>\<open>risk_scores\<close> and
  \<^verbatim>\<open>combined_impact\<close>.
\<close>

record analysis =
  res_impact_matrix :: "impact_row list"
  res_risk_scores :: "radar_entry list"
  res_combined_impact :: combined

text \<open>The loop over the objectives, for one risk; it writes the row and appends the scores.\<close>

fun objectives_loop ::
  "rng \<Rightarrow> nat \<Rightarrow> risk \<Rightarrow> int \<Rightarrow> string list \<Rightarrow> impact_row \<Rightarrow> real list
     \<Rightarrow> (impact_row \<times> real list) \<times> nat" where
  "objectives_loop rnd k risk base_score [] impact_row objective_scores =
     ((impact_row, objective_scores), k)"
| "objectives_loop rnd k risk base_score (objective # rest) impact_row objective_scores =
     (let risk_category = lower (get risk ''category'' '''');
          (impact_level, k') = generate_impact_level rnd k risk_category objective base_score;
          impact_score = convert_level_to_score (lower impact_level)
      in objectives_loop rnd k' risk base_score rest
           (impact_row(objective \<mapsto> impact_level))
           (objective_scores @ [real_of_int impact_score * 10 / 3]))"

text \<open>The body of the loop over the risks.\<close>

definition analyze_risk ::
  "rng \<Rightarrow> nat \<Rightarrow> risk \<Rightarrow> string list \<Rightarrow> (impact_row \<times> radar_entry) \<times> nat" where
  "analyze_risk rnd k risk objectives =
     (let risk_name = get risk ''description'' ''Unknown Risk'';
          severity = lower (get risk ''severity'' ''Medium'');
          probability = lower (get risk ''probability'' ''Medium'');
          severity_score = convert_level_to_score severity;
          probability_score = convert_level_to_score probability;
          base_score = severity_score * probability_score;
          ((impact_row, objective_scores), k') =
             objectives_loop rnd k risk base_score objectives [''Risk'' \<mapsto> risk_name] []
      in ((impact_row,
           \<lparr>entry_risk = risk_name, entry_objectives = objectives,
            entry_scores = objective_scores\<rparr>), k'))"

fun risks_loop ::
  "rng \<Rightarrow> nat \<Rightarrow> risk list \<Rightarrow> string list \<Rightarrow> impact_row list \<Rightarrow> radar_entry list
     \<Rightarrow> (impact_row list \<times> radar_entry list) \<times> nat" where
  "risks_loop rnd k [] objectives impact_matrix risk_scores = ((impact_matrix, risk_scores), k)"
| "risks_loop rnd k (risk # rest) objectives impact_matrix risk_scores =
     (let ((impact_row, entry), k') = analyze_risk rnd k risk objectives
      in risks_loop rnd k' rest objectives (impact_matrix @ [impact_row]) (risk_scores @ [entry]))"

text \<open>
  \<^verbatim>\<open>[row[objective].lower() for row in impact_matrix]\<close>; a row without the key raises
  KeyError.
\<close>

fun row_levels :: "impact_row list \<Rightarrow> string \<Rightarrow> error + string list" where
  "row_levels [] objective = Inr []"
| "row_levels (row # rows) objective =
     (case row objective of
        None \<Rightarrow> Inl KeyError
      | Some level \<Rightarrow>
          (case row_levels rows objective of
             Inl e \<Rightarrow> Inl e
           | Inr levels \<Rightarrow> Inr (lower level # levels)))"

text \<open>The body of the loop over the objectives that computes the combined impact.\<close>

definition combined_score :: "impact_row list \<Rightarrow> string \<Rightarrow> error + real" where
  "combined_score impact_matrix objective =
     (case row_levels impact_matrix objective of
        Inl e \<Rightarrow> Inl e
      | Inr impact_levels \<Rightarrow>
          (let impact_scores = map convert_level_to_score impact_levels
           in if length impact_scores = 0 then Inl ZeroDivisionError
              else Inr (real_of_int (sum_list impact_scores) / real (length impact_scores)
                          * 10 / 3)))"

fun combined_loop :: "impact_row list \<Rightarrow> string list \<Rightarrow> real list \<Rightarrow> error + real list" where
  "combined_loop impact_matrix [] scores = Inr scores"
| "combined_loop impact_matrix (objective # rest) scores =
     (case combined_score impact_matrix objective of
        Inl e \<Rightarrow> Inl e
      | Inr score \<Rightarrow> combined_loop impact_matrix rest (scores @ [score]))"

definition analyze_risk_impacts ::
  "rng \<Rightarrow> nat \<Rightarrow> risk list \<Rightarrow> string list \<Rightarrow> error + (analysis \<times> nat)" where
  "analyze_risk_impacts rnd k risks objectives =
     (let ((impact_matrix, risk_scores), k') = risks_loop rnd k risks objectives [] []
      in case combined_loop impact_matrix objectives [] of
           Inl e \<Rightarrow> Inl e
         | Inr impact_scores \<Rightarrow>
             Inr (\<lparr>res_impact_matrix = impact_matrix,
                   res_risk_scores = risk_scores,
                   res_combined_impact =
                     \<lparr>ci_objectives = objectives, ci_impact_scores = impact_scores\<rparr>\<rparr>, k'))"

subsection \<open>Mitigation strategy effectiveness\<close>

text \<open>
  An element of \<^verbatim>\<open>simulation_results\<close> in \<^verbatim>\<open>show_mitigation_strategies\<close>, keys
  \<^verbatim>\<open>strategy\<close>, \<^verbatim>\<open>initial_score\<close>, \<^verbatim>\<open>new_score\<close>, \<^verbatim>\<open>reduction_percent\<close>,
  \<^verbatim>\<open>cost\<close> and \<^verbatim>\<open>cost_effectiveness\<close>.
\<close>

record mitigation_result =
  m_strategy :: string
  m_initial_score :: int
  m_new_score :: real
  m_reduction_percent :: real
  m_cost :: int
  m_cost_effectiveness :: real

text \<open>
  \<^verbatim>\<open>list.sort(key=key, reverse=True)\<close>: the list is reversed, sorted stably in ascending
  order of the key, and reversed again.
\<close>

definition sort_reverse :: "('a \<Rightarrow> 'k::linorder) \<Rightarrow> 'a list \<Rightarrow> 'a list" where
  "sort_reverse key xs = rev (sort_key key (rev xs))"

text \<open>
  The body of the loop \<^verbatim>\<open>for i, strategy in enumerate(strategies)\<close> after the
  button: two draws (at positions \<open>k\<close> and \<open>k + 1\<close>), the new score, the reduction and the
  cost-effectiveness of one strategy.
\<close>

definition simulate_strategy ::
  "rng \<Rightarrow> nat \<Rightarrow> risk \<Rightarrow> int \<Rightarrow> int \<Rightarrow> int list \<Rightarrow> int \<Rightarrow> nat \<Rightarrow> string
     \<Rightarrow> error + mitigation_result" where
  "simulate_strategy rnd k selected_risk probability_reduction impact_reduction
       implementation_costs initial_score i strategy =
     (let prob_effectiveness = (real_of_int probability_reduction / 100) * (0.8 + 0.4 * rnd k);
          impact_effectiveness =
            (real_of_int impact_reduction / 100) * (0.8 + 0.4 * rnd (Suc k));
          new_prob =
            real_of_int (convert_level_to_score (get selected_risk ''probability'' ''Medium''))
              * (1 - prob_effectiveness);
          new_impact =
            real_of_int (convert_level_to_score (get selected_risk ''impact'' ''Medium''))
              * (1 - impact_effectiveness);
          new_score = new_prob * new_impact
      in if initial_score = 0 then Inl ZeroDivisionError
         else
           let reduction =
                 (real_of_int initial_score - new_score) / real_of_int initial_score * 100
           in if length implementation_costs \<le> i then Inl IndexError
              else
                let cost = implementation_costs ! i;
                    cost_effectiveness =
                      (if cost > 0 then reduction / (real_of_int cost / 1000) else 0)
                in Inr \<lparr>m_strategy = strategy, m_initial_score = initial_score,
                         m_new_score = new_score, m_reduction_percent = reduction,
                         m_cost = cost, m_cost_effectiveness = cost_effectiveness\<rparr>)"

fun strategies_loop ::
  "rng \<Rightarrow> nat \<Rightarrow> risk \<Rightarrow> int \<Rightarrow> int \<Rightarrow> int list \<Rightarrow> int \<Rightarrow> nat \<Rightarrow> string list
     \<Rightarrow> mitigation_result list \<Rightarrow> error + (mitigation_result list \<times> nat)" where
  "strategies_loop rnd k selected_risk probability_reduction impact_reduction
       implementation_costs initial_score i [] results = Inr (results, k)"
| "strategies_loop rnd k selected_risk probability_reduction impact_reduction
       implementation_costs initial_score i (strategy # rest) results =
     (case simulate_strategy rnd k selected_risk probability_reduction impact_reduction
             implementation_costs initial_score i strategy of
        Inl e \<Rightarrow> Inl e
      | Inr result \<Rightarrow>
          strategies_loop rnd (Suc (Suc k)) selected_risk probability_reduction
            impact_reduction implementation_costs initial_score (Suc i) rest
            (results @ [result]))"

text \<open>
  The list \<^verbatim>\<open>simulation_results\<close> before it is sorted. \<open>cost_input i\<close> is the value of
  the number input with key \<^verbatim>\<open>cost_i\<close>, so \<^verbatim>\<open>implementation_costs\<close> has one entry
  per strategy.
\<close>

definition mitigation_results ::
  "rng \<Rightarrow> nat \<Rightarrow> risk \<Rightarrow> string list \<Rightarrow> (nat \<Rightarrow> int) \<Rightarrow> int \<Rightarrow> int
     \<Rightarrow> error + (mitigation_result list \<times> nat)" where
  "mitigation_results rnd k selected_risk strategies cost_input probability_reduction
       impact_reduction =
     (let implementation_costs = map cost_input [0..<length strategies];
          initial_score = calculate_risk_score selected_risk
      in strategies_loop rnd k selected_risk probability_reduction impact_reduction
           implementation_costs initial_score 0 strategies [])"

text \<open>The list after \<^verbatim>\<open>simulation_results.sort(..., reverse=True)\<close>, as it is displayed.\<close>

definition show_mitigation_strategies ::
  "rng \<Rightarrow> nat \<Rightarrow> risk \<Rightarrow> string list \<Rightarrow> (nat \<Rightarrow> int) \<Rightarrow> int \<Rightarrow> int
     \<Rightarrow> error + (mitigation_result list \<times> nat)" where
  "show_mitigation_strategies rnd k selected_risk strategies cost_input probability_reduction
       impact_reduction =
     (case mitigation_results rnd k selected_risk strategies cost_input probability_reduction
             impact_reduction of
        Inl e \<Rightarrow> Inl e
      | Inr (results, k') \<Rightarrow> Inr (sort_reverse m_cost_effectiveness results, k'))"

subsection \<open>Fixed draw sequences for concrete runs\<close>

text \<open>Every draw is one half: the jitter factor \<open>0.8 + 0.4 * u\<close> is exactly 1.\<close>

definition mid_draws :: rng where
  "mid_draws n = 1 / 2"

text \<open>The first draw is 0, every later one is one half.\<close>

definition zero_then_mid :: rng where
  "zero_then_mid n = (if n = 0 then 0 else 1 / 2)"

section \<open>Properties\<close>

subsection \<open>Level scores\<close>

lemma convert_level_to_score_range:
  "1 \<le> convert_level_to_score level \<and> convert_level_to_score level \<le> 3"
  by (simp add: convert_level_to_score_def Let_def)

text \<open>
  Claim C7, as stated: the conversion maps Low, Medium and High, in any letter case, to 1, 2
  and 3, and every other string to 2. It fails on the abbreviations that the code also
  accepts: \<^verbatim>\<open>h\<close> is not one of the three level names, and it is scored 3, not 2;
  \<^verbatim>\<open>L\<close> is scored 1.
\<close>

theorem level_abbreviation_not_medium:
  "spec_level_score ''h'' = 2 \<and> convert_level_to_score ''h'' = 3 \<and>
   spec_level_score ''L'' = 2 \<and> convert_level_to_score ''L'' = 1"
  by (simp add: spec_level_score_def convert_level_to_score_def lower_def lower_char_def)

text \<open>
  Claim C7, amended: case-insensitively, \<^verbatim>\<open>high\<close> and \<^verbatim>\<open>h\<close> are scored 3,
  \<^verbatim>\<open>low\<close> and \<^verbatim>\<open>l\<close> are scored 1, and every other string (\<^verbatim>\<open>medium\<close>,
  \<^verbatim>\<open>med\<close>, \<^verbatim>\<open>m\<close> and every unrecognized one) is scored 2 and never rejected; the
  severity \<^verbatim>\<open>unknown_string\<close> is scored like \<^verbatim>\<open>Medium\<close>.
\<close>

theorem convert_level_to_score_cases:
  "convert_level_to_score level =
     (if lower level = ''high'' \<or> lower level = ''h'' then 3
      else if lower level = ''low'' \<or> lower level = ''l'' then 1
      else 2)
   \<and> convert_level_to_score ''unknown_string'' = 2
   \<and> convert_level_to_score ''Medium'' = 2"
  by (simp add: convert_level_to_score_def lower_def lower_char_def Let_def)

subsection \<open>Dates\<close>

text \<open>
  Rounding moves a number by at most one half and never across an integer.
\<close>

lemma round_half_even_close:
  "\<bar>real_of_int (round_half_even x) - x\<bar> \<le> 1 / 2"
proof -
  have "real_of_int \<lfloor>x\<rfloor> \<le> x" "x < real_of_int \<lfloor>x\<rfloor> + 1" by linarith+
  then show ?thesis
    by (auto simp add: round_half_even_def Let_def)
qed

lemma round_half_even_ge:
  assumes "real_of_int n \<le> x"
  shows "n \<le> round_half_even x"
proof -
  have "n \<le> \<lfloor>x\<rfloor>" using assms by (simp add: le_floor_iff)
  then show ?thesis by (simp add: round_half_even_def Let_def)
qed

lemma round_half_even_le:
  assumes "x \<le> real_of_int n"
  shows "round_half_even x \<le> n"
proof (cases "\<lfloor>x\<rfloor> = n")
  case True
  then have "real_of_int n \<le> x" by (metis of_int_floor_le)
  then have "x = real_of_int n" using assms by simp
  then show ?thesis by (simp add: round_half_even_def)
next
  case False
  have "\<lfloor>x\<rfloor> \<le> n" using assms by (simp add: floor_le_iff)
  then have "\<lfloor>x\<rfloor> + 1 \<le> n" using False by simp
  then show ?thesis by (simp add: round_half_even_def Let_def)
qed

lemma microseconds_range:
  "0 \<le> microseconds t \<and> microseconds t < 315537897600000000"
  using microseconds [of t] by simp

lemma timedelta_days_zero: "timedelta_days 0 = Inr 0"
  by (simp add: timedelta_days_def round_half_even_def)

lemma plus_days_zero: "plus_days t 0 = Inr t"
  using microseconds_range [of t]
  by (simp add: plus_days_def timedelta_days_zero datetime_add_def microseconds_inverse)

lemma plus_days_in_range:
  assumes lo: "0 \<le> real_of_int (microseconds t) + x * 86400000000"
    and hi: "real_of_int (microseconds t) + x * 86400000000 \<le> 315537897599999999"
  shows "\<exists>c. plus_days t x = Inr c \<and>
           \<bar>real_of_int (microseconds c - microseconds t) - x * 86400000000\<bar> \<le> 1 / 2"
proof -
  define us where "us = round_half_even (x * 86400000000)"
  define r where "r = microseconds t + us"
  have close: "\<bar>real_of_int us - x * 86400000000\<bar> \<le> 1 / 2"
    unfolding us_def by (rule round_half_even_close)
  have t: "0 \<le> microseconds t" "microseconds t < 315537897600000000"
    using microseconds_range [of t] by simp_all
  have "real_of_int (- microseconds t) \<le> x * 86400000000"
    using lo by simp
  then have "- microseconds t \<le> us"
    unfolding us_def by (rule round_half_even_ge)
  then have r0: "0 \<le> r" by (simp add: r_def)
  have "x * 86400000000 \<le> real_of_int (315537897599999999 - microseconds t)"
    using hi by simp
  then have "us \<le> 315537897599999999 - microseconds t"
    unfolding us_def by (rule round_half_even_le)
  then have r1: "r < 315537897600000000" by (simp add: r_def)
  have us: "us \<le> 315537897599999999" "- 315537897599999999 \<le> us"
    using r0 r1 t by (simp_all add: r_def)
  have "us div 86400000000 \<le> 315537897599999999 div 86400000000"
    using us(1) by (intro zdiv_mono1) simp_all
  moreover have "(- 315537897599999999) div 86400000000 \<le> us div 86400000000"
    using us(2) by (intro zdiv_mono1) simp_all
  ultimately have d: "\<not> 999999999 < \<bar>us div 86400000000\<bar>" by simp
  have td: "timedelta_days x = Inr us"
    using d by (simp add: timedelta_days_def us_def [symmetric])
  have add: "datetime_add t us = Inr (datetime_of_microseconds r)"
    using r0 r1 by (simp add: datetime_add_def r_def [symmetric])
  have m: "microseconds (datetime_of_microseconds r) = r"
    using r0 r1 by (simp add: datetime_of_microseconds_inverse)
  have "microseconds (datetime_of_microseconds r) - microseconds t = us"
    unfolding m by (simp add: r_def)
  then have "\<bar>real_of_int (microseconds (datetime_of_microseconds r) - microseconds t)
           - x * 86400000000\<bar> \<le> 1 / 2"
    using close by (simp only:)
  then show ?thesis
    by (intro exI [of _ "datetime_of_microseconds r"]) (simp add: plus_days_def td add)
qed

lemma midnight_2025:
  "midnight 2025 1 1 = datetime_of_microseconds 63871286400000000"
  "midnight 2025 2 5 = datetime_of_microseconds 63874310400000000"
  by (simp_all add: midnight_def ymd2ord_def days_before_year_def days_before_month_def
        is_leap_def)

lemma midnight_2025_microseconds:
  "microseconds (midnight 2025 1 1) = 63871286400000000"
  "microseconds (midnight 2025 2 5) = 63874310400000000"
  by (simp_all add: midnight_2025 datetime_of_microseconds_inverse)

lemma plus_35_days: "plus_days (midnight 2025 1 1) 35 = Inr (midnight 2025 2 5)"
  by (simp add: midnight_2025_microseconds plus_days_def timedelta_days_def
        round_half_even_def datetime_add_def midnight_2025(2))

lemma plus_4000000_days: "plus_days (midnight 2025 1 1) 4000000 = Inl OverflowError"
  by (simp add: midnight_2025_microseconds plus_days_def timedelta_days_def
        round_half_even_def datetime_add_def midnight_2025(2))


subsection \<open>Monte Carlo schedule simulation\<close>

lemma triangular_degenerate:
  "high = low \<Longrightarrow> triangular rnd k low high mode = Inr (low, Suc k)"
  by (simp add: triangular_def)

lemma sample_duration_zero_uncertainty:
  "sample_duration rnd k 0 d = Inr (d, Suc k)"
  by (simp add: sample_duration_def triangular_degenerate)

lemma sample_duration_zero_duration:
  "sample_duration rnd k u 0 = Inr (0, Suc k)"
  by (simp add: sample_duration_def triangular_degenerate)

lemma simulate_durations_fixed:
  "\<forall>d \<in> set ds. u = 0 \<or> d = 0 \<Longrightarrow>
     simulate_durations rnd k u ds = Inr (ds, k + length ds)"
proof (induction ds arbitrary: k)
  case Nil
  show ?case by simp
next
  case (Cons d ds)
  have s: "sample_duration rnd k u d = Inr (d, Suc k)"
    using Cons.prems sample_duration_zero_uncertainty sample_duration_zero_duration
    by (cases "u = 0") auto
  have r: "simulate_durations rnd (Suc k) u ds = Inr (ds, Suc k + length ds)"
    using Cons by simp
  show ?case by (simp add: s r)
qed

lemma simulation_loop_fixed:
  assumes "\<And>k. simulate_durations rnd k u bds = Inr (ds, k + m)"
    and "plus_days start (sum_list ds) = Inr c"
  shows "simulation_loop rnd k start bds u n acc =
           Inr (\<lparr>durations = durations acc @ replicate n (sum_list ds),
                 completion_dates = completion_dates acc @ replicate n c\<rparr>,
                k + n * m)"
proof (induction n arbitrary: k acc)
  case 0
  show ?case by simp
next
  case (Suc n)
  show ?case
    by (simp add: assms Suc.IH Let_def add.assoc)
qed

lemma simulation_fixed:
  assumes "\<forall>t \<in> set tasks. u = 0 \<or> task_duration t = 0"
    and "plus_days now (sum_list (map task_duration tasks)) = Inr c"
  shows "run_monte_carlo_simulation rnd k now tasks u N =
     Inr (\<lparr>durations = replicate (nat N) (sum_list (map task_duration tasks)),
           completion_dates = replicate (nat N) c\<rparr>,
          k + nat N * length tasks)"
proof -
  have "\<forall>d \<in> set (map task_duration tasks). u = 0 \<or> d = 0"
    using assms(1) by simp
  then have "\<And>k. simulate_durations rnd k u (map task_duration tasks) =
      Inr (map task_duration tasks, k + length tasks)"
    using simulate_durations_fixed [of "map task_duration tasks" u rnd] by simp
  then show ?thesis
    using assms(2) by (simp add: run_monte_carlo_simulation_def simulation_loop_fixed)
qed

text \<open>A trial whose completion date cannot be represented ends the whole simulation.\<close>

lemma simulation_overflow:
  assumes "\<forall>t \<in> set tasks. u = 0 \<or> task_duration t = 0"
    and "plus_days now (sum_list (map task_duration tasks)) = Inl e" and "0 < N"
  shows "run_monte_carlo_simulation rnd k now tasks u N = Inl e"
proof -
  have "\<forall>d \<in> set (map task_duration tasks). u = 0 \<or> d = 0"
    using assms(1) by simp
  then have s: "simulate_durations rnd k u (map task_duration tasks) =
      Inr (map task_duration tasks, k + length tasks)"
    using simulate_durations_fixed [of "map task_duration tasks" u rnd] by simp
  obtain n where n: "nat N = Suc n" using assms(3) by (cases "nat N") auto
  show ?thesis
    by (simp add: run_monte_carlo_simulation_def n s assms(2))
qed







text \<open>
  Claim C1, as stated: a call with an empty task list, or with an iteration count below 1,
  fails with an InvalidInput error and returns no result. The function validates nothing:
  with no task and three iterations it returns three trials of duration 0, and with one task
  and no iteration it returns the bundle of two empty lists.
\<close>

theorem simulator_returns_on_empty_input:
  "run_monte_carlo_simulation mid_draws 0 (midnight 2025 1 1) [] (1 / 5) 3 =
     Inr (\<lparr>durations = [0, 0, 0],
           completion_dates = [midnight 2025 1 1, midnight 2025 1 1, midnight 2025 1 1]\<rparr>, 0) \<and>
   run_monte_carlo_simulation mid_draws 0 (midnight 2025 1 1)
       [\<lparr>task_id = ''T1'', duration = Some 10, critical = Some True\<rparr>] (1 / 5) 0 =
     Inr (\<lparr>durations = [], completion_dates = []\<rparr>, 0)"
  by (simp add: run_monte_carlo_simulation_def plus_days_zero numeral_3_eq_3 Let_def)

text \<open>
  Claim C1, amended: the simulator does not fail on these inputs. With an empty task list
  it returns a bundle of N trials, each of total duration 0 and completing at the anchor;
  with an iteration count below 1 it returns a bundle with no trial. (The caller,
  \<^verbatim>\<open>show_monte_carlo_simulation\<close>, returns with a warning before it calls the
  simulator when there is no task to simulate.)
\<close>

theorem simulator_no_input_validation:
  "run_monte_carlo_simulation rnd k now [] u N =
     Inr (\<lparr>durations = replicate (nat N) 0, completion_dates = replicate (nat N) now\<rparr>, k) \<and>
   (M < 1 \<longrightarrow>
      run_monte_carlo_simulation rnd k now tasks u M =
        Inr (\<lparr>durations = [], completion_dates = []\<rparr>, k))"
  using simulation_fixed [of "[]" u now now rnd k N]
  by (simp add: plus_days_zero run_monte_carlo_simulation_def)

theorem simulator_no_input_validation_witness:
  "run_monte_carlo_simulation mid_draws 0 (midnight 2025 1 1) [] (1 / 5) 2 =
     Inr (\<lparr>durations = [0, 0],
           completion_dates = [midnight 2025 1 1, midnight 2025 1 1]\<rparr>, 0) \<and>
   (-1 :: int) < 1 \<and>
   run_monte_carlo_simulation mid_draws 0 (midnight 2025 1 1)
       [\<lparr>task_id = ''T1'', duration = Some 10, critical = Some True\<rparr>] (1 / 5) (-1) =
     Inr (\<lparr>durations = [], completion_dates = []\<rparr>, 0)"
  using simulator_no_input_validation
    [of mid_draws 0 "midnight 2025 1 1" "1 / 5" 2 "-1"
        "[\<lparr>task_id = ''T1'', duration = Some 10, critical = Some True\<rparr>]"]
  by (simp add: numeral_2_eq_2)

text \<open>
  Claim C4, as stated: with uncertainty 0, every non-empty task list and every iteration
  count of at least 1 yield trials whose total duration is the sum of the task durations. A
  trial is recorded only after its completion date has been computed, and a date after the
  year 9999 does not exist: with one task of 4000000 days and the anchor 2025-01-01 the
  addition raises OverflowError in the first trial and the simulator returns nothing.
\<close>

theorem zero_uncertainty_overflow:
  "run_monte_carlo_simulation mid_draws 0 (midnight 2025 1 1)
       [\<lparr>task_id = ''T1'', duration = Some 4000000, critical = Some True\<rparr>] 0 1 =
     Inl OverflowError"
  using simulation_overflow
    [of "[\<lparr>task_id = ''T1'', duration = Some 4000000, critical = Some True\<rparr>]" 0
        "midnight 2025 1 1" OverflowError 1 mid_draws 0]
  by (simp add: task_duration_def plus_4000000_days)

text \<open>
  Claim C4, amended: with uncertainty 0, for every task list and iteration count N such that
  the anchor plus the sum of the task durations, in days, lies within the range of
  \<^verbatim>\<open>datetime\<close>, the simulation returns N trials whose total duration is that sum, all
  completing at one date, which is the anchor plus the sum in days to the microsecond. For
  the durations 10, 20 and 5, N = 100 and the anchor 2025-01-01 00:00, every trial has total
  duration 35 and completes at 2025-02-05 00:00, which is 35 days of 86400000000
  microseconds after the anchor.
\<close>

theorem zero_uncertainty_exact_sum:
  assumes "0 \<le> real_of_int (microseconds now)
                 + sum_list (map task_duration tasks) * 86400000000"
    and "real_of_int (microseconds now)
           + sum_list (map task_duration tasks) * 86400000000 \<le> 315537897599999999"
  shows "(\<exists>c. run_monte_carlo_simulation rnd k now tasks 0 N =
            Inr (\<lparr>durations = replicate (nat N) (sum_list (map task_duration tasks)),
                  completion_dates = replicate (nat N) c\<rparr>,
                 k + nat N * length tasks) \<and>
          \<bar>real_of_int (microseconds c - microseconds now)
              - sum_list (map task_duration tasks) * 86400000000\<bar> \<le> 1 / 2) \<and>
   run_monte_carlo_simulation rnd k (midnight 2025 1 1)
       [\<lparr>task_id = ''T1'', duration = Some 10, critical = Some True\<rparr>,
        \<lparr>task_id = ''T2'', duration = Some 20, critical = Some True\<rparr>,
        \<lparr>task_id = ''T3'', duration = Some 5, critical = Some True\<rparr>] 0 100 =
     Inr (\<lparr>durations = replicate 100 35,
           completion_dates = replicate 100 (midnight 2025 2 5)\<rparr>, k + 300) \<and>
   microseconds (midnight 2025 2 5) - microseconds (midnight 2025 1 1) = 35 * 86400000000"
proof -
  obtain c where c: "plus_days now (sum_list (map task_duration tasks)) = Inr c"
    "\<bar>real_of_int (microseconds c - microseconds now)
        - sum_list (map task_duration tasks) * 86400000000\<bar> \<le> 1 / 2"
    using plus_days_in_range [OF assms] by blast
  have 1: "\<exists>c. run_monte_carlo_simulation rnd k now tasks 0 N =
            Inr (\<lparr>durations = replicate (nat N) (sum_list (map task_duration tasks)),
                  completion_dates = replicate (nat N) c\<rparr>,
                 k + nat N * length tasks) \<and>
          \<bar>real_of_int (microseconds c - microseconds now)
              - sum_list (map task_duration tasks) * 86400000000\<bar> \<le> 1 / 2"
    using simulation_fixed [of tasks 0 now c rnd k N] c by blast
  have 2: "run_monte_carlo_simulation rnd k (midnight 2025 1 1)
       [\<lparr>task_id = ''T1'', duration = Some 10, critical = Some True\<rparr>,
        \<lparr>task_id = ''T2'', duration = Some 20, critical = Some True\<rparr>,
        \<lparr>task_id = ''T3'', duration = Some 5, critical = Some True\<rparr>] 0 100 =
     Inr (\<lparr>durations = replicate 100 35,
           completion_dates = replicate 100 (midnight 2025 2 5)\<rparr>, k + 300)"
    using simulation_fixed
      [of "[\<lparr>task_id = ''T1'', duration = Some 10, critical = Some True\<rparr>,
            \<lparr>task_id = ''T2'', duration = Some 20, critical = Some True\<rparr>,
            \<lparr>task_id = ''T3'', duration = Some 5, critical = Some True\<rparr>]" 0
          "midnight 2025 1 1" "midnight 2025 2 5" rnd k 100]
    by (simp add: task_duration_def plus_35_days)
  have 3: "microseconds (midnight 2025 2 5) - microseconds (midnight 2025 1 1)
             = 35 * 86400000000"
    by (simp add: midnight_2025_microseconds)
  from 1 2 3 show ?thesis by blast
qed

theorem zero_uncertainty_exact_sum_witness:
  "0 \<le> real_of_int (microseconds (midnight 2025 1 1)) + 15 * 86400000000 \<and>
   real_of_int (microseconds (midnight 2025 1 1)) + 15 * 86400000000
     \<le> 315537897599999999 \<and>
   (\<exists>c. run_monte_carlo_simulation mid_draws 0 (midnight 2025 1 1)
          [\<lparr>task_id = ''T1'', duration = Some 10, critical = Some True\<rparr>,
           \<lparr>task_id = ''T2'', duration = Some 5, critical = None\<rparr>] 0 2 =
            Inr (\<lparr>durations = replicate 2 15, completion_dates = replicate 2 c\<rparr>, 4) \<and>
          \<bar>real_of_int (microseconds c - microseconds (midnight 2025 1 1))
              - 15 * 86400000000\<bar> \<le> 1 / 2)"
  using zero_uncertainty_exact_sum
    [of "midnight 2025 1 1"
        "[\<lparr>task_id = ''T1'', duration = Some 10, critical = Some True\<rparr>,
          \<lparr>task_id = ''T2'', duration = Some 5, critical = None\<rparr>]" mid_draws 0 2]
  by (simp add: task_duration_def midnight_2025_microseconds)




text \<open>
  Claim C6: for a task of baseline duration 0 and every uncertainty, the sampling step
  returns 0 whatever the draw is, without raising; a simulation whose tasks all have
  duration 0 returns N trials of total duration 0.
\<close>

theorem zero_duration_sample_is_zero:
  "sample_duration rnd k u 0 = Inr (0, Suc k) \<and>
   ((\<forall>t \<in> set tasks. task_duration t = 0) \<longrightarrow>
      run_monte_carlo_simulation rnd k now tasks u N =
        Inr (\<lparr>durations = replicate (nat N) 0, completion_dates = replicate (nat N) now\<rparr>,
             k + nat N * length tasks))"
proof -
  have "run_monte_carlo_simulation rnd k now tasks u N =
        Inr (\<lparr>durations = replicate (nat N) 0, completion_dates = replicate (nat N) now\<rparr>,
             k + nat N * length tasks)"
    if z: "\<forall>t \<in> set tasks. task_duration t = 0"
  proof -
    have "sum_list (map task_duration tasks) = 0"
      using z by (induction tasks) simp_all
    then show ?thesis
      using simulation_fixed [of tasks u now now rnd k N] z
      by (simp add: plus_days_zero)
  qed
  then show ?thesis
    by (simp add: sample_duration_zero_duration)
qed

theorem zero_duration_sample_is_zero_witness:
  "sample_duration mid_draws 0 (1 / 5) 0 = Inr (0, Suc 0) \<and>
   task_duration \<lparr>task_id = ''T1'', duration = Some 0, critical = None\<rparr> = 0 \<and>
   task_duration \<lparr>task_id = ''T2'', duration = None, critical = None\<rparr> = 0 \<and>
   run_monte_carlo_simulation mid_draws 0 (midnight 2025 1 1)
       [\<lparr>task_id = ''T1'', duration = Some 0, critical = None\<rparr>,
        \<lparr>task_id = ''T2'', duration = None, critical = None\<rparr>] (1 / 5) 2 =
     Inr (\<lparr>durations = [0, 0],
           completion_dates = [midnight 2025 1 1, midnight 2025 1 1]\<rparr>, 4)"
  using zero_duration_sample_is_zero
    [of mid_draws 0 "1 / 5"
        "[\<lparr>task_id = ''T1'', duration = Some 0, critical = None\<rparr>,
          \<lparr>task_id = ''T2'', duration = None, critical = None\<rparr>]" "midnight 2025 1 1" 2]
  by (simp add: task_duration_def numeral_2_eq_2)

subsection \<open>Confidence percentiles\<close>

text \<open>
  Linear interpolation over a sorted list is monotone in the virtual index.
\<close>

lemma lerp_mono:
  fixes s :: "real list"
  assumes srt: "sorted s" and ne: "s \<noteq> []"
    and h1: "0 \<le> h1" and h12: "h1 \<le> h2" and h2: "h2 \<le> real (length s - 1)"
  shows "s ! nat \<lfloor>h1\<rfloor>
           + (s ! min (nat \<lfloor>h1\<rfloor> + 1) (length s - 1) - s ! nat \<lfloor>h1\<rfloor>) * (h1 - real (nat \<lfloor>h1\<rfloor>))
         \<le> s ! nat \<lfloor>h2\<rfloor>
           + (s ! min (nat \<lfloor>h2\<rfloor> + 1) (length s - 1) - s ! nat \<lfloor>h2\<rfloor>) * (h2 - real (nat \<lfloor>h2\<rfloor>))"
proof -
  define n where "n = length s"
  define i1 where "i1 = nat \<lfloor>h1\<rfloor>"
  define i2 where "i2 = nat \<lfloor>h2\<rfloor>"
  define j1 where "j1 = min (i1 + 1) (n - 1)"
  define j2 where "j2 = min (i2 + 1) (n - 1)"
  define g1 where "g1 = h1 - real i1"
  define g2 where "g2 = h2 - real i2"
  have npos: "0 < n" using ne by (simp add: n_def)
  have h2': "h2 \<le> real (n - 1)" using h2 by (simp add: n_def)
  have h2nn: "0 \<le> h2" using h1 h12 by simp
  have i12: "i1 \<le> i2"
    unfolding i1_def i2_def using h12 by (simp add: floor_mono nat_mono)
  have "\<lfloor>h2\<rfloor> \<le> int (n - 1)" using h2' by (simp add: floor_le_iff)
  then have i2n: "i2 \<le> n - 1" unfolding i2_def by simp
  have ri1: "real i1 = of_int \<lfloor>h1\<rfloor>" unfolding i1_def using h1 by simp
  have ri2: "real i2 = of_int \<lfloor>h2\<rfloor>" unfolding i2_def using h2nn by simp
  have g1: "0 \<le> g1" "g1 \<le> 1" unfolding g1_def ri1 by linarith+
  have g2: "0 \<le> g2" "g2 \<le> 1" unfolding g2_def ri2 by linarith+
  have j1n: "j1 < n" "i1 \<le> j1" unfolding j1_def using npos i12 i2n by auto
  have j2n: "j2 < n" "i2 \<le> j2" unfolding j2_def using npos i2n by auto
  have d1: "s ! i1 \<le> s ! j1"
    using srt j1n by (simp add: sorted_nth_mono n_def)
  have d2: "s ! i2 \<le> s ! j2"
    using srt j2n by (simp add: sorted_nth_mono n_def)
  have goal: "s ! i1 + (s ! j1 - s ! i1) * g1 \<le> s ! i2 + (s ! j2 - s ! i2) * g2"
  proof (cases "i1 = i2")
    case True
    then have j: "j1 = j2" by (simp add: j1_def j2_def)
    have "g1 \<le> g2" unfolding g1_def g2_def using True h12 by simp
    then have "(s ! j1 - s ! i1) * g1 \<le> (s ! j1 - s ! i1) * g2"
      using d1 by (simp add: mult_left_mono)
    then show ?thesis using True j by simp
  next
    case False
    then have lt: "i1 + 1 \<le> i2" using i12 by simp
    then have "j1 \<le> i2" unfolding j1_def by simp
    moreover have "i2 < n" using i2n npos by arith
    then have "i2 < length s" by (simp only: n_def)
    ultimately have a: "s ! j1 \<le> s ! i2"
      using srt by (rule_tac sorted_nth_mono)
    have "(s ! j1 - s ! i1) * g1 \<le> (s ! j1 - s ! i1) * 1"
      using d1 g1 by (intro mult_left_mono) simp_all
    then have b: "s ! i1 + (s ! j1 - s ! i1) * g1 \<le> s ! j1" by simp
    have "0 \<le> (s ! j2 - s ! i2) * g2" using d2 g2 by simp
    then have c: "s ! i2 \<le> s ! i2 + (s ! j2 - s ! i2) * g2" by simp
    from b a c show ?thesis by linarith
  qed
  then show ?thesis
    unfolding i1_def i2_def j1_def j2_def g1_def g2_def n_def by simp
qed

lemma percentile_value:
  assumes "a \<noteq> []" "0 \<le> q" "q \<le> 100"
  shows "percentile a q =
     Inr (sort a ! nat \<lfloor>q / 100 * real (length a - 1)\<rfloor>
          + (sort a ! min (nat \<lfloor>q / 100 * real (length a - 1)\<rfloor> + 1) (length a - 1)
               - sort a ! nat \<lfloor>q / 100 * real (length a - 1)\<rfloor>)
            * (q / 100 * real (length a - 1) - real (nat \<lfloor>q / 100 * real (length a - 1)\<rfloor>)))"
  using assms by (simp add: percentile_def Let_def)

lemma percentile_mono:
  assumes ne: "a \<noteq> []" and p: "0 \<le> p" and pq: "p \<le> q" and q: "q \<le> 100"
  shows "\<exists>x y. percentile a p = Inr x \<and> percentile a q = Inr y \<and> x \<le> y"
proof -
  let ?s = "sort a"
  let ?m = "real (length a - 1)"
  have len: "length ?s = length a" by simp
  have "length ?s \<noteq> 0" using ne by simp
  then have s: "sorted ?s" "?s \<noteq> []" by (simp, blast)
  have a1: "0 \<le> p / 100 * ?m" using p by simp
  have a2: "p / 100 * ?m \<le> q / 100 * ?m" using pq by (simp add: mult_right_mono)
  have "q / 100 * ?m \<le> 1 * ?m" using q by (intro mult_right_mono) simp_all
  then have a3: "q / 100 * ?m \<le> real (length ?s - 1)" by simp
  have pv: "0 \<le> q" "p \<le> 100" using p pq q by simp_all
  show ?thesis
    using lerp_mono [OF s a1 a2 a3]
    by (simp only: percentile_value [OF ne p pv(2)] percentile_value [OF ne pv(1) q] len
          sum.inject) blast
qed

text \<open>
  Claim C8: for every non-empty list of durations (every result of the simulator with at
  least one iteration is one), the percentiles at 50, 80, 90 and 95 exist and are
  non-decreasing in this order.
\<close>

theorem percentile_monotone:
  assumes "ds \<noteq> []"
  shows "\<exists>p50 p80 p90 p95.
           percentile ds 50 = Inr p50 \<and> percentile ds 80 = Inr p80 \<and>
           percentile ds 90 = Inr p90 \<and> percentile ds 95 = Inr p95 \<and>
           p50 \<le> p80 \<and> p80 \<le> p90 \<and> p90 \<le> p95"
proof -
  obtain a b where 1: "percentile ds 50 = Inr a" "percentile ds 80 = Inr b" "a \<le> b"
    using percentile_mono [OF assms, of 50 80] by auto
  obtain b' c where 2: "percentile ds 80 = Inr b'" "percentile ds 90 = Inr c" "b' \<le> c"
    using percentile_mono [OF assms, of 80 90] by auto
  obtain c' d where 3: "percentile ds 90 = Inr c'" "percentile ds 95 = Inr d" "c' \<le> d"
    using percentile_mono [OF assms, of 90 95] by auto
  from 1 2 3 show ?thesis by auto
qed

theorem percentile_monotone_witness:
  "[3, 1, 2 :: real] \<noteq> [] \<and> (\<exists>p50 p80 p90 p95.
           percentile [3, 1, 2] 50 = Inr p50 \<and> percentile [3, 1, 2] 80 = Inr p80 \<and>
           percentile [3, 1, 2] 90 = Inr p90 \<and> percentile [3, 1, 2] 95 = Inr p95 \<and>
           p50 \<le> p80 \<and> p80 \<le> p90 \<and> p90 \<le> p95)"
  using percentile_monotone [of "[3, 1, 2]"] by simp

subsection \<open>Mitigation strategy ranking\<close>



lemma sort_reverse_set_length:
  "set (sort_reverse key xs) = set xs \<and> length (sort_reverse key xs) = length xs"
  by (simp add: sort_reverse_def)

lemma calculate_risk_score_range:
  "1 \<le> calculate_risk_score risk \<and> calculate_risk_score risk \<le> 9"
proof -
  let ?p = "convert_level_to_score (get risk ''probability'' ''Medium'')"
  let ?i = "convert_level_to_score (get risk ''impact'' ''Medium'')"
  have p: "1 \<le> ?p" "?p \<le> 3" and i: "1 \<le> ?i" "?i \<le> 3"
    using convert_level_to_score_range by simp_all
  have "1 * 1 \<le> ?p * ?i" using p i by (intro mult_mono) simp_all
  moreover have "?p * ?i \<le> 3 * 3" using p i by (intro mult_mono) simp_all
  ultimately show ?thesis by (simp add: calculate_risk_score_def)
qed

lemma simulate_strategy_ok:
  assumes "initial_score \<noteq> 0" "i < length costs"
  shows "\<exists>r. simulate_strategy rnd k risk pr ir costs initial_score i s = Inr r \<and>
           m_initial_score r = initial_score \<and> m_strategy r = s"
  using assms by (simp add: simulate_strategy_def Let_def)

lemma strategies_loop_total:
  assumes "initial_score \<noteq> 0"
  shows "i + length strategies \<le> length costs \<Longrightarrow>
     \<exists>new. strategies_loop rnd k risk pr ir costs initial_score i strategies results =
             Inr (results @ new, k + 2 * length strategies) \<and>
           length new = length strategies \<and>
           (\<forall>r \<in> set new. m_initial_score r = initial_score)"
proof (induction strategies arbitrary: k i results)
  case Nil
  show ?case by simp
next
  case (Cons s strategies)
  have i: "i < length costs" and i': "Suc i + length strategies \<le> length costs"
    using Cons.prems by simp_all
  obtain r where r: "simulate_strategy rnd k risk pr ir costs initial_score i s = Inr r"
    "m_initial_score r = initial_score"
    using simulate_strategy_ok [OF assms i] by blast
  obtain new where new:
    "strategies_loop rnd (Suc (Suc k)) risk pr ir costs initial_score (Suc i) strategies
        (results @ [r]) = Inr ((results @ [r]) @ new, Suc (Suc k) + 2 * length strategies)"
    "length new = length strategies" "\<forall>r \<in> set new. m_initial_score r = initial_score"
    using Cons.IH [OF i'] by blast
  show ?case
    by (rule exI [of _ "r # new"]) (simp add: r new)
qed

lemma mitigation_results_total:
  "\<exists>results. mitigation_results rnd k risk strategies cost_input pr ir =
       Inr (results, k + 2 * length strategies) \<and>
     length results = length strategies \<and>
     (\<forall>r \<in> set results. m_initial_score r = calculate_risk_score risk)"
proof -
  have nz: "calculate_risk_score risk \<noteq> 0"
    using calculate_risk_score_range [of risk] by simp
  show ?thesis
    using strategies_loop_total [OF nz, of 0 strategies "map cost_input [0..<length strategies]"
        rnd k risk pr ir "[]"]
    by (simp add: mitigation_results_def)
qed

text \<open>
  Claim C3, as stated: the initial risk score of the ranking is the severity score times the
  probability score. The code reads the key \<^verbatim>\<open>impact\<close>, not \<^verbatim>\<open>severity\<close>: a
  risk of high severity and high probability that has no \<^verbatim>\<open>impact\<close> entry gets 6
  (probability 3 times the Medium default 2), not 9.
\<close>

theorem initial_score_ignores_severity:
  "spec_initial_score [''severity'' \<mapsto> ''High'', ''probability'' \<mapsto> ''High''] = 9 \<and>
   calculate_risk_score [''severity'' \<mapsto> ''High'', ''probability'' \<mapsto> ''High''] = 6"
  by (simp add: spec_initial_score_def calculate_risk_score_def get_def
        convert_level_to_score_def lower_def lower_char_def)

text \<open>
  Claim C3, amended: the ranking always returns, and the initial score of every candidate is
  the score of the risk's \<^verbatim>\<open>probability\<close> times the score of its \<^verbatim>\<open>impact\<close> entry
  (each Medium when absent), with the level mapping of \<^verbatim>\<open>convert_level_to_score\<close>; it
  lies between 1 and 9.
\<close>

theorem initial_score_is_probability_times_impact:
  "\<exists>ranked k'.
     show_mitigation_strategies rnd k risk strategies cost_input pr ir = Inr (ranked, k') \<and>
     map m_initial_score ranked = replicate (length strategies) (calculate_risk_score risk) \<and>
     calculate_risk_score risk =
       convert_level_to_score (get risk ''probability'' ''Medium'')
         * convert_level_to_score (get risk ''impact'' ''Medium'') \<and>
     1 \<le> calculate_risk_score risk \<and> calculate_risk_score risk \<le> 9"
proof -
  obtain results where r:
    "mitigation_results rnd k risk strategies cost_input pr ir =
       Inr (results, k + 2 * length strategies)"
    "length results = length strategies"
    "\<forall>r \<in> set results. m_initial_score r = calculate_risk_score risk"
    using mitigation_results_total by blast
  let ?ranked = "sort_reverse m_cost_effectiveness results"
  have "\<forall>r \<in> set ?ranked. m_initial_score r = calculate_risk_score risk"
    using r(3) by (simp add: sort_reverse_set_length)
  then have "map m_initial_score ?ranked = replicate (length ?ranked) (calculate_risk_score risk)"
    by (simp add: map_replicate_const [symmetric] cong: map_cong)
  then have m: "map m_initial_score ?ranked
      = replicate (length strategies) (calculate_risk_score risk)"
    by (simp add: sort_reverse_set_length r(2))
  have c: "calculate_risk_score risk =
       convert_level_to_score (get risk ''probability'' ''Medium'')
         * convert_level_to_score (get risk ''impact'' ''Medium'')"
    by (simp add: calculate_risk_score_def)
  show ?thesis
    using m c calculate_risk_score_range [of risk]
    by (intro exI [of _ ?ranked] exI [of _ "k + 2 * length strategies"])
       (simp add: r(1) show_mitigation_strategies_def)
qed


subsection \<open>Risk impact analysis\<close>

text \<open>
  Claim C2 says that with an empty risk list and at least one objective the scorer succeeds
  and returns an empty matrix and a combined impact of one zero per objective. On the code,
  the mean over the rows of the first objective divides the empty sum by the length 0: for
  every non-empty objectives list the call with no risk raises ZeroDivisionError and returns
  nothing. (It returns an empty result only when the objectives list is empty as well.)
\<close>

theorem empty_risk_list_raises:
  "analyze_risk_impacts rnd k [] (objective # rest) = Inl ZeroDivisionError \<and>
   analyze_risk_impacts rnd k [] [''Schedule''] = Inl ZeroDivisionError \<and>
   analyze_risk_impacts rnd k [] [] =
     Inr (\<lparr>res_impact_matrix = [], res_risk_scores = [],
           res_combined_impact = \<lparr>ci_objectives = [], ci_impact_scores = []\<rparr>\<rparr>, k)"
  by (simp add: analyze_risk_impacts_def combined_score_def)

lemma generate_impact_level_cases:
  "\<exists>l. generate_impact_level rnd k cat obj base = (l, Suc k) \<and>
       l \<in> {''High'', ''Medium'', ''Low''}"
  by (simp add: generate_impact_level_def Let_def)

lemma level_score_values:
  assumes "l \<in> {''High'', ''Medium'', ''Low''}"
  shows "convert_level_to_score (lower l) = convert_level_to_score l \<and>
         real_of_int (convert_level_to_score l) * 10 / 3 \<in> {10 / 3, 20 / 3, 10}"
  using assms
  by (auto simp add: convert_level_to_score_def lower_def lower_char_def)

lemma map_upds_distinct_nth:
  "distinct xs \<Longrightarrow> length ys = length xs \<Longrightarrow> j < length xs \<Longrightarrow>
     (m(xs [\<mapsto>] ys)) (xs ! j) = Some (ys ! j)"
proof (induction xs arbitrary: m ys j)
  case Nil
  then show ?case by simp
next
  case (Cons x xs)
  then obtain y ys' where ys: "ys = y # ys'" by (cases ys) auto
  show ?case
  proof (cases j)
    case 0
    then show ?thesis using Cons.prems ys by simp
  next
    case (Suc j')
    have "((m(x \<mapsto> y))(xs [\<mapsto>] ys')) (xs ! j') = Some (ys' ! j')"
      using Cons.prems ys Suc by (intro Cons.IH) simp_all
    then show ?thesis by (simp add: ys Suc del: map_upds_twist)
  qed
qed

lemma objectives_loop_spec:
  "\<exists>lvls. objectives_loop rnd k risk base objs row scores =
      ((row(objs [\<mapsto>] lvls),
        scores @ map (\<lambda>l. real_of_int (convert_level_to_score l) * 10 / 3) lvls),
       k + length objs) \<and>
     length lvls = length objs \<and> set lvls \<subseteq> {''High'', ''Medium'', ''Low''}"
proof (induction objs arbitrary: k row scores)
  case Nil
  show ?case by simp
next
  case (Cons obj objs)
  obtain l where l:
    "generate_impact_level rnd k (lower (get risk ''category'' '''')) obj base = (l, Suc k)"
    "l \<in> {''High'', ''Medium'', ''Low''}"
    using generate_impact_level_cases by blast
  have sc: "convert_level_to_score (lower l) = convert_level_to_score l"
    using level_score_values [OF l(2)] by simp
  obtain lvls where lvls:
    "objectives_loop rnd (Suc k) risk base objs (row(obj \<mapsto> l))
        (scores @ [real_of_int (convert_level_to_score l) * 10 / 3]) =
      (((row(obj \<mapsto> l))(objs [\<mapsto>] lvls),
        (scores @ [real_of_int (convert_level_to_score l) * 10 / 3])
          @ map (\<lambda>l. real_of_int (convert_level_to_score l) * 10 / 3) lvls),
       Suc k + length objs)"
    "length lvls = length objs" "set lvls \<subseteq> {''High'', ''Medium'', ''Low''}"
    using Cons.IH by blast
  show ?case
    using l(2) lvls(2,3)
    by (intro exI [of _ "l # lvls"]) (simp add: l(1) sc lvls(1))
qed

lemma analyze_risk_spec:
  "\<exists>name lvls. analyze_risk rnd k risk objectives =
      (([''Risk'' \<mapsto> name](objectives [\<mapsto>] lvls),
        \<lparr>entry_risk = name, entry_objectives = objectives,
         entry_scores = map (\<lambda>l. real_of_int (convert_level_to_score l) * 10 / 3) lvls\<rparr>),
       k + length objectives) \<and>
     length lvls = length objectives \<and> set lvls \<subseteq> {''High'', ''Medium'', ''Low''}"
proof -
  let ?base = "convert_level_to_score (lower (get risk ''severity'' ''Medium''))
                 * convert_level_to_score (lower (get risk ''probability'' ''Medium''))"
  let ?name = "get risk ''description'' ''Unknown Risk''"
  obtain lvls where lvls:
    "objectives_loop rnd k risk ?base objectives [''Risk'' \<mapsto> ?name] [] =
      (([''Risk'' \<mapsto> ?name](objectives [\<mapsto>] lvls),
        [] @ map (\<lambda>l. real_of_int (convert_level_to_score l) * 10 / 3) lvls),
       k + length objectives)"
    "length lvls = length objectives" "set lvls \<subseteq> {''High'', ''Medium'', ''Low''}"
    using objectives_loop_spec by blast
  show ?thesis
    using lvls(2,3)
    by (intro exI [of _ ?name] exI [of _ lvls]) (simp add: analyze_risk_def Let_def lvls(1))
qed

text \<open>What a row and the radar entry of the same risk have in common.\<close>

lemma risks_loop_spec:
  "\<exists>rows entries. risks_loop rnd k risks objectives matrix rs =
      ((matrix @ rows, rs @ entries), k + length risks * length objectives) \<and>
     length rows = length risks \<and> length entries = length risks \<and>
     (\<forall>i < length risks. \<exists>name lvls.
        rows ! i = [''Risk'' \<mapsto> name](objectives [\<mapsto>] lvls) \<and>
        entries ! i = \<lparr>entry_risk = name, entry_objectives = objectives,
           entry_scores = map (\<lambda>l. real_of_int (convert_level_to_score l) * 10 / 3) lvls\<rparr> \<and>
        length lvls = length objectives \<and> set lvls \<subseteq> {''High'', ''Medium'', ''Low''})"
proof (induction risks arbitrary: k matrix rs)
  case Nil
  show ?case by simp
next
  case (Cons risk risks)
  obtain name lvls where a:
    "analyze_risk rnd k risk objectives =
      (([''Risk'' \<mapsto> name](objectives [\<mapsto>] lvls),
        \<lparr>entry_risk = name, entry_objectives = objectives,
         entry_scores = map (\<lambda>l. real_of_int (convert_level_to_score l) * 10 / 3) lvls\<rparr>),
       k + length objectives)"
    "length lvls = length objectives" "set lvls \<subseteq> {''High'', ''Medium'', ''Low''}"
    using analyze_risk_spec by blast
  let ?row = "[''Risk'' \<mapsto> name](objectives [\<mapsto>] lvls)"
  let ?entry = "\<lparr>entry_risk = name, entry_objectives = objectives,
         entry_scores = map (\<lambda>l. real_of_int (convert_level_to_score l) * 10 / 3) lvls\<rparr>"
  obtain rows entries where r:
    "risks_loop rnd (k + length objectives) risks objectives (matrix @ [?row]) (rs @ [?entry]) =
      (((matrix @ [?row]) @ rows, (rs @ [?entry]) @ entries),
       k + length objectives + length risks * length objectives)"
    "length rows = length risks" "length entries = length risks"
    "\<forall>i < length risks. \<exists>name lvls.
        rows ! i = [''Risk'' \<mapsto> name](objectives [\<mapsto>] lvls) \<and>
        entries ! i = \<lparr>entry_risk = name, entry_objectives = objectives,
           entry_scores = map (\<lambda>l. real_of_int (convert_level_to_score l) * 10 / 3) lvls\<rparr> \<and>
        length lvls = length objectives \<and> set lvls \<subseteq> {''High'', ''Medium'', ''Low''}"
    using Cons.IH by blast
  have nth: "\<exists>name lvls.
        (?row # rows) ! i = [''Risk'' \<mapsto> name](objectives [\<mapsto>] lvls) \<and>
        (?entry # entries) ! i = \<lparr>entry_risk = name, entry_objectives = objectives,
           entry_scores = map (\<lambda>l. real_of_int (convert_level_to_score l) * 10 / 3) lvls\<rparr> \<and>
        length lvls = length objectives \<and> set lvls \<subseteq> {''High'', ''Medium'', ''Low''}"
    if "i < length (risk # risks)" for i
  proof (cases i)
    case 0
    then show ?thesis using a(2,3) by auto
  next
    case (Suc i')
    then show ?thesis using r(4) that by simp
  qed
  have eq: "risks_loop rnd k (risk # risks) objectives matrix rs =
      ((matrix @ (?row # rows), rs @ (?entry # entries)),
       k + length (risk # risks) * length objectives)"
    by (simp add: a(1) r(1) add.assoc)
  have len: "length (?row # rows) = length (risk # risks)"
    "length (?entry # entries) = length (risk # risks)"
    using r(2,3) by simp_all
  show ?case
    by (intro exI [of _ "?row # rows"] exI [of _ "?entry # entries"] conjI allI impI
          eq len nth)
qed

lemma row_levels_ok:
  "\<forall>row \<in> set matrix. row obj \<noteq> None \<Longrightarrow>
     \<exists>ls. row_levels matrix obj = Inr ls \<and> length ls = length matrix"
  by (induction matrix) auto

lemma combined_score_ok:
  assumes "matrix \<noteq> []" "\<forall>row \<in> set matrix. row obj \<noteq> None"
  shows "\<exists>x. combined_score matrix obj = Inr x"
proof -
  obtain ls where "row_levels matrix obj = Inr ls" "length ls = length matrix"
    using row_levels_ok [OF assms(2)] by blast
  then show ?thesis using assms(1) by (auto simp add: combined_score_def Let_def)
qed

lemma combined_loop_ok:
  assumes "matrix \<noteq> []"
  shows "\<forall>obj \<in> set objs. \<forall>row \<in> set matrix. row obj \<noteq> None \<Longrightarrow>
    \<exists>xs. combined_loop matrix objs scores = Inr xs"
proof (induction objs arbitrary: scores)
  case Nil
  show ?case by simp
next
  case (Cons obj objs)
  have "\<forall>row \<in> set matrix. row obj \<noteq> None"
    using Cons.prems by simp
  then obtain x where x: "combined_score matrix obj = Inr x"
    using combined_score_ok [OF assms] by blast
  show ?case using Cons.IH [of "scores @ [x]"] Cons.prems by (simp add: x)
qed

lemma row_covers_objectives:
  assumes "length lvls = length objectives" "obj \<in> set objectives"
  shows "(m(objectives [\<mapsto>] lvls)) obj \<noteq> None"
proof -
  have "obj \<in> dom (m(objectives [\<mapsto>] lvls))"
    using assms by simp
  then show ?thesis by blast
qed

text \<open>A concrete run: one schedule risk, the objective \<^verbatim>\<open>Schedule\<close> listed twice.\<close>

lemma schedule_weight:
  "(case category_impact ''schedule'' of None \<Rightarrow> default_impact | Some m \<Rightarrow> m)
     ''Schedule'' = Some 0.9"
  by (simp add: category_impact_def)

lemma first_draw_low:
  "generate_impact_level zero_then_mid 0 ''schedule'' ''Schedule'' 2 = (''Low'', 1)"
  by (simp add: generate_impact_level_def schedule_weight zero_then_mid_def)

lemma second_draw_medium:
  "generate_impact_level zero_then_mid (Suc 0) ''schedule'' ''Schedule'' 2 = (''Medium'', 2)"
  by (simp add: generate_impact_level_def schedule_weight zero_then_mid_def)

lemma level_values:
  "convert_level_to_score ''medium'' = 2"
  "convert_level_to_score ''low'' = 1"
  "lower ''Medium'' = ''medium''"
  "lower ''Low'' = ''low''"
  "lower ''schedule'' = ''schedule''"
  "convert_level_to_score ''Medium'' = 2"
  by (simp_all add: convert_level_to_score_def lower_def lower_char_def)

lemma risk_fields:
  "get [''description'' \<mapsto> ''R1'', ''category'' \<mapsto> ''schedule'',
        ''severity'' \<mapsto> ''Medium'', ''probability'' \<mapsto> ''Low'']
     ''category'' '''' = ''schedule''"
  "get [''description'' \<mapsto> ''R1'', ''category'' \<mapsto> ''schedule'',
        ''severity'' \<mapsto> ''Medium'', ''probability'' \<mapsto> ''Low'']
     ''description'' ''Unknown Risk'' = ''R1''"
  "get [''description'' \<mapsto> ''R1'', ''category'' \<mapsto> ''schedule'',
        ''severity'' \<mapsto> ''Medium'', ''probability'' \<mapsto> ''Low'']
     ''severity'' ''Medium'' = ''Medium''"
  "get [''description'' \<mapsto> ''R1'', ''category'' \<mapsto> ''schedule'',
        ''severity'' \<mapsto> ''Medium'', ''probability'' \<mapsto> ''Low'']
     ''probability'' ''Medium'' = ''Low''"
  by (simp_all add: get_def)

lemma repeated_objective_row:
  "analyze_risk zero_then_mid 0
     [''description'' \<mapsto> ''R1'', ''category'' \<mapsto> ''schedule'',
       ''severity'' \<mapsto> ''Medium'', ''probability'' \<mapsto> ''Low'']
     [''Schedule'', ''Schedule''] =
   (([''Risk'' \<mapsto> ''R1'', ''Schedule'' \<mapsto> ''Medium''],
     \<lparr>entry_risk = ''R1'', entry_objectives = [''Schedule'', ''Schedule''],
             entry_scores = [10 / 3, 20 / 3]\<rparr>), 2)"
  by (simp add: analyze_risk_def risk_fields level_values first_draw_low second_draw_medium
        Let_def)

text \<open>
  Claim C10, as stated: for every position of the objectives list the radar score is the
  score of the level recorded in the matrix for that objective, times 10/3. With an objective
  listed twice the row keeps the level drawn last, while the radar scores keep both draws:
  here the first draw gives Low (radar score 10/3) and the second Medium, which is what the
  row records for \<^verbatim>\<open>Schedule\<close> (score 20/3).
\<close>

theorem radar_score_differs_on_repeated_objective:
  "analyze_risk_impacts zero_then_mid 0
     [[''description'' \<mapsto> ''R1'', ''category'' \<mapsto> ''schedule'',
       ''severity'' \<mapsto> ''Medium'', ''probability'' \<mapsto> ''Low'']]
     [''Schedule'', ''Schedule''] =
   Inr (\<lparr>res_impact_matrix = [[''Risk'' \<mapsto> ''R1'', ''Schedule'' \<mapsto> ''Medium'']],
         res_risk_scores =
           [\<lparr>entry_risk = ''R1'', entry_objectives = [''Schedule'', ''Schedule''],
             entry_scores = [10 / 3, 20 / 3]\<rparr>],
         res_combined_impact =
           \<lparr>ci_objectives = [''Schedule'', ''Schedule''],
            ci_impact_scores = [20 / 3, 20 / 3]\<rparr>\<rparr>, 2) \<and>
   real_of_int (convert_level_to_score ''Medium'') * 10 / 3 = 20 / 3"
  by (simp add: analyze_risk_impacts_def repeated_objective_row combined_score_def
        level_values Let_def)

text \<open>
  Claim C10, amended: for an objectives list without repeated labels (and at least one risk,
  or no objective: otherwise the scorer raises), the scorer returns one matrix row and one
  radar entry per risk; the entry carries the objectives list, one score per objective in the
  same order, and the score at every position is the score of the level that the row records
  for that objective, times 10/3, hence one of 10/3, 20/3 and 10.
\<close>

theorem radar_scores_match_matrix:
  assumes d: "distinct objectives" and ne: "risks \<noteq> [] \<or> objectives = []"
  shows "\<exists>res k'. analyze_risk_impacts rnd k risks objectives = Inr (res, k') \<and>
     length (res_impact_matrix res) = length risks \<and>
     length (res_risk_scores res) = length risks \<and>
     (\<forall>i < length risks.
        entry_objectives (res_risk_scores res ! i) = objectives \<and>
        length (entry_scores (res_risk_scores res ! i)) = length objectives \<and>
        (\<forall>j < length objectives. \<exists>level.
            (res_impact_matrix res ! i) (objectives ! j) = Some level \<and>
            entry_scores (res_risk_scores res ! i) ! j
              = real_of_int (convert_level_to_score level) * 10 / 3 \<and>
            entry_scores (res_risk_scores res ! i) ! j \<in> {10 / 3, 20 / 3, 10}))"
proof -
  obtain rows entries where r:
    "risks_loop rnd k risks objectives [] [] =
      (([] @ rows, [] @ entries), k + length risks * length objectives)"
    "length rows = length risks" "length entries = length risks"
    and each: "\<forall>i < length risks. \<exists>name lvls.
        rows ! i = [''Risk'' \<mapsto> name](objectives [\<mapsto>] lvls) \<and>
        entries ! i = \<lparr>entry_risk = name, entry_objectives = objectives,
           entry_scores = map (\<lambda>l. real_of_int (convert_level_to_score l) * 10 / 3) lvls\<rparr> \<and>
        length lvls = length objectives \<and> set lvls \<subseteq> {''High'', ''Medium'', ''Low''}"
    using risks_loop_spec by blast
  have cov: "\<forall>obj \<in> set objectives. \<forall>row \<in> set rows. row obj \<noteq> None"
  proof (intro ballI)
    fix obj row
    assume obj: "obj \<in> set objectives" and "row \<in> set rows"
    then obtain i where i: "i < length rows" "row = rows ! i"
      by (auto simp add: in_set_conv_nth)
    then obtain name lvls where
      "rows ! i = [''Risk'' \<mapsto> name](objectives [\<mapsto>] lvls)" "length lvls = length objectives"
      using each r(2) by auto
    then show "row obj \<noteq> None"
      using i(2) row_covers_objectives [OF _ obj] by simp
  qed
  have "\<exists>xs. combined_loop rows objectives [] = Inr xs"
  proof (cases "objectives = []")
    case True
    then show ?thesis by simp
  next
    case False
    then have "rows \<noteq> []" using ne r(2) by auto
    then show ?thesis using combined_loop_ok cov by blast
  qed
  then obtain xs where xs: "combined_loop rows objectives [] = Inr xs" by blast
  let ?res = "\<lparr>res_impact_matrix = rows, res_risk_scores = entries,
     res_combined_impact = \<lparr>ci_objectives = objectives, ci_impact_scores = xs\<rparr>\<rparr>"
  have run: "analyze_risk_impacts rnd k risks objectives =
      Inr (?res, k + length risks * length objectives)"
    using r(1) by (simp add: analyze_risk_impacts_def xs)
  have body: "entry_objectives (entries ! i) = objectives \<and>
        length (entry_scores (entries ! i)) = length objectives \<and>
        (\<forall>j < length objectives. \<exists>level.
            (rows ! i) (objectives ! j) = Some level \<and>
            entry_scores (entries ! i) ! j
              = real_of_int (convert_level_to_score level) * 10 / 3 \<and>
            entry_scores (entries ! i) ! j \<in> {10 / 3, 20 / 3, 10})"
    if i: "i < length risks" for i
  proof -
    obtain name lvls where e:
      "rows ! i = [''Risk'' \<mapsto> name](objectives [\<mapsto>] lvls)"
      "entries ! i = \<lparr>entry_risk = name, entry_objectives = objectives,
           entry_scores = map (\<lambda>l. real_of_int (convert_level_to_score l) * 10 / 3) lvls\<rparr>"
      "length lvls = length objectives" "set lvls \<subseteq> {''High'', ''Medium'', ''Low''}"
      using each i by blast
    have inner: "\<exists>level.
            (rows ! i) (objectives ! j) = Some level \<and>
            entry_scores (entries ! i) ! j
              = real_of_int (convert_level_to_score level) * 10 / 3 \<and>
            entry_scores (entries ! i) ! j \<in> {10 / 3, 20 / 3, 10}"
      if j: "j < length objectives" for j
    proof -
      have 1: "(rows ! i) (objectives ! j) = Some (lvls ! j)"
        unfolding e(1) using d e(3) j by (rule map_upds_distinct_nth)
      have 2: "entry_scores (entries ! i) ! j
              = real_of_int (convert_level_to_score (lvls ! j)) * 10 / 3"
        using j e(3) by (simp add: e(2))
      have "lvls ! j \<in> set lvls"
        using e(3) j by (intro nth_mem) simp
      then have "lvls ! j \<in> {''High'', ''Medium'', ''Low''}"
        using e(4) by (rule set_mp [rotated])
      then have 3: "real_of_int (convert_level_to_score (lvls ! j)) * 10 / 3
           \<in> {10 / 3, 20 / 3, 10}"
        using level_score_values by blast
      from 3 have 4: "entry_scores (entries ! i) ! j \<in> {10 / 3, 20 / 3, 10}"
        by (simp only: 2)
      show ?thesis by (intro exI [of _ "lvls ! j"] conjI 1 2 4)
    qed
    show ?thesis using inner e(3) by (simp add: e(2))
  qed
  show ?thesis
    using body r(2,3)
    by (intro exI [of _ ?res] exI [of _ "k + length risks * length objectives"])
       (simp add: run)
qed

theorem radar_scores_match_matrix_witness:
  "distinct [''Schedule'', ''Budget''] \<and>
   (\<exists>res k'. analyze_risk_impacts mid_draws 0
        [[''description'' \<mapsto> ''R1'', ''category'' \<mapsto> ''schedule'',
          ''severity'' \<mapsto> ''High'', ''probability'' \<mapsto> ''High'']]
        [''Schedule'', ''Budget''] = Inr (res, k') \<and>
      length (res_impact_matrix res) = 1 \<and>
      entry_objectives (res_risk_scores res ! 0) = [''Schedule'', ''Budget''] \<and>
      (\<exists>level. (res_impact_matrix res ! 0) ''Schedule'' = Some level \<and>
         entry_scores (res_risk_scores res ! 0) ! 0
           = real_of_int (convert_level_to_score level) * 10 / 3))"
proof -
  have d: "distinct [''Schedule'', ''Budget'']" by simp
  obtain res k' where r: "analyze_risk_impacts mid_draws 0
        [[''description'' \<mapsto> ''R1'', ''category'' \<mapsto> ''schedule'',
          ''severity'' \<mapsto> ''High'', ''probability'' \<mapsto> ''High'']]
        [''Schedule'', ''Budget''] = Inr (res, k')"
     "length (res_impact_matrix res) = 1"
     "\<forall>i < 1.
        entry_objectives (res_risk_scores res ! i) = [''Schedule'', ''Budget''] \<and>
        length (entry_scores (res_risk_scores res ! i)) = length [''Schedule'', ''Budget''] \<and>
        (\<forall>j < length [''Schedule'', ''Budget'']. \<exists>level.
            (res_impact_matrix res ! i) ([''Schedule'', ''Budget''] ! j) = Some level \<and>
            entry_scores (res_risk_scores res ! i) ! j
              = real_of_int (convert_level_to_score level) * 10 / 3 \<and>
            entry_scores (res_risk_scores res ! i) ! j \<in> {10 / 3, 20 / 3, 10})"
    using radar_scores_match_matrix [OF d, of "[[''description'' \<mapsto> ''R1'', ''category'' \<mapsto> ''schedule'',
          ''severity'' \<mapsto> ''High'', ''probability'' \<mapsto> ''High'']]" mid_draws 0]
    by auto
  from r(3) have 0: "entry_objectives (res_risk_scores res ! 0) = [''Schedule'', ''Budget'']"
    "\<forall>j < length [''Schedule'', ''Budget'']. \<exists>level.
            (res_impact_matrix res ! 0) ([''Schedule'', ''Budget''] ! j) = Some level \<and>
            entry_scores (res_risk_scores res ! 0) ! j
              = real_of_int (convert_level_to_score level) * 10 / 3 \<and>
            entry_scores (res_risk_scores res ! 0) ! j \<in> {10 / 3, 20 / 3, 10}"
    by simp_all
  from 0(2) have "\<exists>level. (res_impact_matrix res ! 0) ''Schedule'' = Some level \<and>
         entry_scores (res_risk_scores res ! 0) ! 0
           = real_of_int (convert_level_to_score level) * 10 / 3"
    by fastforce
  with d r(1,2) 0(1) show ?thesis by blast
qed

end
